theory Spec2Isabelle
  imports Complex_Main "HOL-Library.Multiset"
begin

section \<open>Python values shared by the modules\<close>

text \<open>
  A Python \<open>str\<close> is a sequence of Unicode code points, and \<open>len\<close> counts code
  points.  The documents handled here are Korean, so a string is modelled as the list of
  its code points; \<open>u\<close> turns an ASCII literal into such a list.
\<close>

type_synonym ustr = "nat list"

definition u :: "string \<Rightarrow> ustr" where
  "u s = map of_char s"

text \<open>Exceptions are values; a generic exception carries its message.\<close>

datatype exn = JSONDecodeError | AttributeError | TypeError | Exception ustr


text \<open>
  \<open>str.isspace\<close>, which \<open>str.strip()\<close> and the regular expression class \<open>\s\<close> use
  on a \<open>str\<close>: the Unicode white space code points.
\<close>

definition is_space :: "nat \<Rightarrow> bool" where
  "is_space c \<longleftrightarrow>
     (9 \<le> c \<and> c \<le> 13) \<or> (28 \<le> c \<and> c \<le> 32) \<or> c = 133 \<or> c = 160 \<or> c = 5760 \<or>
     (8192 \<le> c \<and> c \<le> 8202) \<or> c = 8232 \<or> c = 8233 \<or> c = 8239 \<or> c = 8287 \<or> c = 12288"

text \<open>
  The regular expression class \<open>\d\<close>, restricted to the ASCII digits \<open>0\<close> to \<open>9\<close>
  (Python also accepts the decimal digits of other scripts, which are left out here).
\<close>

definition is_digit :: "nat \<Rightarrow> bool" where
  "is_digit c \<longleftrightarrow> 48 \<le> c \<and> c \<le> 57"

definition py_strip :: "ustr \<Rightarrow> ustr" where
  "py_strip s = rev (dropWhile is_space (rev (dropWhile is_space s)))"

definition startswith :: "ustr \<Rightarrow> ustr \<Rightarrow> bool" where
  "startswith s p \<longleftrightarrow> take (length p) s = p"

text \<open>\<open>s.split(c)\<close> for a one-character separator, and \<open>sep.join(xs)\<close>.\<close>

fun py_split :: "nat \<Rightarrow> ustr \<Rightarrow> ustr list" where
  "py_split c [] = [[]]"
| "py_split c (x # xs) =
     (if x = c then [] # py_split c xs
      else (case py_split c xs of [] \<Rightarrow> [[x]] | l # ls \<Rightarrow> (x # l) # ls))"

fun py_join :: "ustr \<Rightarrow> ustr list \<Rightarrow> ustr" where
  "py_join sep [] = []"
| "py_join sep [x] = x"
| "py_join sep (x # y # ys) = x @ sep @ py_join sep (y # ys)"

text \<open>\<open>str(n)\<close> for a non-negative \<open>int\<close>: the decimal digits.\<close>

fun str_nat :: "nat \<Rightarrow> ustr" where
  "str_nat n = (if n < 10 then [48 + n] else str_nat (n div 10) @ [48 + n mod 10])"

declare str_nat.simps [simp del]

text \<open>The two Hangul syllables of a clause number, U+C81C and U+C870.\<close>

definition ch_je :: nat where
  "ch_je = 0xC81C"

definition ch_jo :: nat where
  "ch_jo = 0xC870"

text \<open>
  \<open>re.match(r'^je\s*\d+\s*jo', s)\<close> with the two syllables above for je and jo.  White
  space, digits and the syllable jo are disjoint classes, so the greedy match of each
  part is the only one.
\<close>

definition clause_header_match :: "ustr \<Rightarrow> bool" where
  "clause_header_match s =
     (case s of
        [] \<Rightarrow> False
      | c # rest \<Rightarrow>
          c = ch_je \<and>
          (let r1 = dropWhile is_space rest;
               r2 = dropWhile is_digit r1;
               r3 = dropWhile is_space r2
           in takeWhile is_digit r1 \<noteq> [] \<and> startswith r3 [ch_jo]))"

text \<open>
  \<open>xs[:k]\<close> for a Python \<open>int\<close> k: a non-negative bound keeps the first k elements, a
  negative one drops the last \<open>-k\<close>.
\<close>

definition py_slice_to :: "int \<Rightarrow> 'a list \<Rightarrow> 'a list" where
  "py_slice_to k xs =
     (if 0 \<le> k then take (nat k) xs else take (length xs - nat (- k)) xs)"

section \<open>src/documents/repository.py: hybrid search\<close>

text \<open>
  One row of a vector search, as the dict built from a database row.  The keys the hybrid
  search reads or writes are fields; \<open>is_room_document\<close> exists only in the rows of the
  room-context search, \<open>weighted_score\<close> and \<open>source_type\<close> only after the hybrid
  search has tagged the row.  Scores are Python floats, modelled by exact rationals.
\<close>

record search_result =
  sr_chunk_id :: int
  sr_content :: ustr
  similarity_score :: rat
  is_room_document :: "bool option"
  weighted_score :: "rat option"
  source_type :: "ustr option"

type_synonym embedding = "rat list"

text \<open>
  The two searches run SQL against the database: they may raise, and two calls with the
  same arguments need not agree.  Both are parameters that take and return the state of
  the outside world \<open>'w\<close>.
  \<^item> \<open>search_documents_by_vector(query_embedding, session, doc_types, top_k)\<close>
  \<^item> \<open>search_documents_by_vector_with_room_context(query_embedding, session, room_id,
    doc_types, top_k)\<close>
\<close>

type_synonym 'w vector_search =
  "'w \<Rightarrow> embedding \<Rightarrow> ustr list option \<Rightarrow> int \<Rightarrow> (exn + search_result list) \<times> 'w"

type_synonym 'w room_search =
  "'w \<Rightarrow> embedding \<Rightarrow> int \<Rightarrow> ustr list option \<Rightarrow> int \<Rightarrow> (exn + search_result list) \<times> 'w"

text \<open>
  \<open>list.sort(key=..., reverse=True)\<close>: descending, and stable (elements with equal keys
  keep their original order).  \<open>insert_desc\<close> puts an element in front of the first
  element whose key is not larger; inserting from the right keeps equal keys in order.
\<close>

fun insert_desc :: "('a \<Rightarrow> rat) \<Rightarrow> 'a \<Rightarrow> 'a list \<Rightarrow> 'a list" where
  "insert_desc k x [] = [x]"
| "insert_desc k x (y # ys) = (if k y \<le> k x then x # y # ys else y # insert_desc k x ys)"

definition sort_desc :: "('a \<Rightarrow> rat) \<Rightarrow> 'a list \<Rightarrow> 'a list" where
  "sort_desc k xs = foldr (insert_desc k) xs []"

text \<open>The loop bodies \<open>result["weighted_score"] = ...; result["source_type"] = ...\<close>.\<close>

definition apply_weight :: "rat \<Rightarrow> ustr \<Rightarrow> search_result \<Rightarrow> search_result" where
  "apply_weight weight tag result =
     result\<lparr>weighted_score := Some (similarity_score result * weight),
            source_type := Some tag\<rparr>"

text \<open>
  The sort key \<open>x["weighted_score"]\<close>.  Every element of \<open>combined_results\<close> was assigned
  the key just before the sort, so the lookup never fails there.
\<close>

definition weighted_key :: "search_result \<Rightarrow> rat" where
  "weighted_key x = the (weighted_score x)"

definition combine_results ::
  "rat \<Rightarrow> rat \<Rightarrow> search_result list \<Rightarrow> search_result list \<Rightarrow> search_result list" where
  "combine_results system_weight room_weight system_results room_results =
     map (apply_weight system_weight (u ''system'')) system_results @
     map (apply_weight room_weight (u ''room'')) room_results"

text \<open>The body of the \<open>try\<close> block of \<open>search_documents_hybrid\<close>.\<close>

definition hybrid_try ::
  "'w vector_search \<Rightarrow> 'w room_search \<Rightarrow> 'w \<Rightarrow> embedding \<Rightarrow> int option \<Rightarrow>
   ustr list option \<Rightarrow> int \<Rightarrow> rat \<Rightarrow> rat \<Rightarrow> (exn + search_result list) \<times> 'w" where
  "hybrid_try search_documents_by_vector search_documents_by_vector_with_room_context
     w query_embedding room_id doc_types top_k system_weight room_weight =
     (case search_documents_by_vector w query_embedding doc_types top_k of
        (Inl e, w1) \<Rightarrow> (Inl e, w1)
      | (Inr system_results, w1) \<Rightarrow>
          (case (case room_id of
                   None \<Rightarrow> (Inr [], w1)
                 | Some rid \<Rightarrow>
                     (case search_documents_by_vector_with_room_context
                             w1 query_embedding rid doc_types top_k of
                        (Inl e, w2) \<Rightarrow> (Inl e, w2)
                      | (Inr rows, w2) \<Rightarrow>
                          (Inr (filter (\<lambda>r. is_room_document r = Some True) rows), w2))) of
             (Inl e, w2) \<Rightarrow> (Inl e, w2)
           | (Inr room_results, w2) \<Rightarrow>
               (Inr (py_slice_to top_k
                      (sort_desc weighted_key
                         (combine_results system_weight room_weight
                            system_results room_results))), w2)))"

text \<open>
  \<open>search_documents_hybrid\<close>: the \<open>except Exception\<close> handler runs the global search
  again, with the same arguments, and returns what it returns.
\<close>

definition search_documents_hybrid ::
  "'w vector_search \<Rightarrow> 'w room_search \<Rightarrow> 'w \<Rightarrow> embedding \<Rightarrow> int option \<Rightarrow>
   ustr list option \<Rightarrow> int \<Rightarrow> rat \<Rightarrow> rat \<Rightarrow> (exn + search_result list) \<times> 'w" where
  "search_documents_hybrid search_documents_by_vector
     search_documents_by_vector_with_room_context
     w query_embedding room_id doc_types top_k system_weight room_weight =
     (case hybrid_try search_documents_by_vector
             search_documents_by_vector_with_room_context
             w query_embedding room_id doc_types top_k system_weight room_weight of
        (Inr results, w') \<Rightarrow> (Inr results, w')
      | (Inl e, w') \<Rightarrow> search_documents_by_vector w' query_embedding doc_types top_k)"

text \<open>The default weights of the signature.\<close>

definition default_system_weight :: rat where
  "default_system_weight = 6 / 10"

definition default_room_weight :: rat where
  "default_room_weight = 4 / 10"


section \<open>src/documents/chunking.py: HierarchicalChunker\<close>

text \<open>
  The metadata dict of a langchain \<open>Document\<close>.  A field is \<open>None\<close> while its key is
  absent.  The markdown splitter writes the keys \<open>Header 1\<close> to \<open>Header 4\<close>; all other
  keys are written by \<open>chunk_markdown\<close>.
\<close>

record metadata =
  Header_1 :: "ustr option"
  Header_2 :: "ustr option"
  Header_3 :: "ustr option"
  Header_4 :: "ustr option"
  source :: "ustr option"
  md_chunk_type :: "ustr option"
  md_parent_id :: "ustr option"
  parent_index :: "nat option"
  md_content_length :: "nat option"
  md_child_id :: "ustr option"
  child_index :: "nat option"
  md_is_standalone :: "bool option"
  skip_child_creation :: "bool option"

record document =
  page_content :: ustr
  metadata :: metadata

text \<open>
  The two splitters come from the library \<open>langchain_text_splitters\<close>, which is not part
  of the repository.  They are parameters:
  \<^item> \<open>MarkdownHeaderTextSplitter(headers_to_split_on).split_text\<close> maps a text to
    its sections;
  \<^item> \<open>RecursiveCharacterTextSplitter(chunk_size, chunk_overlap, length_function=len)\<close>
    may reject its arguments, and otherwise yields a function from a text to its pieces.
  Either call may raise.
\<close>

type_synonym text_splitter = "ustr \<Rightarrow> exn + ustr list"

text \<open>
  What the markdown splitter returns for one section: the text, and a metadata dict whose
  only keys are the names given in \<open>headers_to_split_on\<close>, here \<open>Header 1\<close> to
  \<open>Header 4\<close>, each present when the section lies under a header of that level.
\<close>

record md_section =
  section_text :: ustr
  section_header_1 :: "ustr option"
  section_header_2 :: "ustr option"
  section_header_3 :: "ustr option"
  section_header_4 :: "ustr option"

definition section_document :: "md_section \<Rightarrow> document" where
  "section_document sec =
     \<lparr>page_content = section_text sec,
      metadata =
        \<lparr>Header_1 = section_header_1 sec, Header_2 = section_header_2 sec,
         Header_3 = section_header_3 sec, Header_4 = section_header_4 sec,
         source = None, md_chunk_type = None, md_parent_id = None, parent_index = None,
         md_content_length = None, md_child_id = None, child_index = None,
         md_is_standalone = None, skip_child_creation = None\<rparr>\<rparr>"

type_synonym markdown_splitter = "ustr \<Rightarrow> exn + md_section list"

record chunker =
  headers_to_split_on :: "(ustr \<times> ustr) list"
  markdown_splitter :: markdown_splitter
  chunk_size :: int
  chunk_overlap :: int
  child_splitter :: text_splitter

text \<open>\<open>__init__\<close> and \<open>_create_child_splitter\<close>.\<close>

definition create_child_splitter ::
  "(int \<Rightarrow> int \<Rightarrow> exn + text_splitter) \<Rightarrow> chunker \<Rightarrow> (exn + unit) \<times> chunker" where
  "create_child_splitter RecursiveCharacterTextSplitter s =
     (case RecursiveCharacterTextSplitter (chunk_size s) (chunk_overlap s) of
        Inl e \<Rightarrow> (Inl e, s)
      | Inr sp \<Rightarrow> (Inr (), s\<lparr>child_splitter := sp\<rparr>))"

definition init_chunker ::
  "((ustr \<times> ustr) list \<Rightarrow> markdown_splitter) \<Rightarrow> (int \<Rightarrow> int \<Rightarrow> exn + text_splitter) \<Rightarrow>
   exn + chunker" where
  "init_chunker MarkdownHeaderTextSplitter RecursiveCharacterTextSplitter =
     (let hs = [(u ''#'', u ''Header 1''), (u ''##'', u ''Header 2''),
                (u ''###'', u ''Header 3''), (u ''####'', u ''Header 4'')]
      in case RecursiveCharacterTextSplitter 500 50 of
           Inl e \<Rightarrow> Inl e
         | Inr sp \<Rightarrow>
             Inr \<lparr>headers_to_split_on = hs,
                  markdown_splitter = MarkdownHeaderTextSplitter hs,
                  chunk_size = 500, chunk_overlap = 50, child_splitter = sp\<rparr>)"

text \<open>
  \<open>update_chunk_settings\<close>: both attributes are assigned before the splitter is built,
  so they keep their new values when the constructor raises.
\<close>

definition update_chunk_settings ::
  "(int \<Rightarrow> int \<Rightarrow> exn + text_splitter) \<Rightarrow> int \<Rightarrow> int \<Rightarrow> chunker \<Rightarrow> (exn + unit) \<times> chunker" where
  "update_chunk_settings RecursiveCharacterTextSplitter new_size new_overlap s =
     create_child_splitter RecursiveCharacterTextSplitter
       (s\<lparr>chunk_size := new_size, chunk_overlap := new_overlap\<rparr>)"

text \<open>Step 1 of \<open>chunk_markdown\<close>: clause lines become second-level headers.\<close>

definition preprocess_line :: "ustr \<Rightarrow> ustr" where
  "preprocess_line line =
     (if clause_header_match (py_strip line) then u ''## '' @ py_strip line else line)"

definition preprocess_markdown :: "ustr \<Rightarrow> ustr" where
  "preprocess_markdown markdown_content =
     py_join [10] (map preprocess_line (py_split 10 markdown_content))"

text \<open>Step 3: a clause number found in \<open>Header 2\<close> is copied to \<open>Header 1\<close>.\<close>

definition restore_clause_header :: "document \<Rightarrow> document" where
  "restore_clause_header parent_chunk =
     (case Header_2 (metadata parent_chunk) of
        None \<Rightarrow> parent_chunk
      | Some header_2 \<Rightarrow>
          if header_2 \<noteq> [] \<and> startswith header_2 [ch_je] \<and> ch_jo \<in> set header_2
          then parent_chunk\<lparr>metadata := (metadata parent_chunk)\<lparr>Header_1 := Some header_2\<rparr>\<rparr>
          else parent_chunk)"

text \<open>
  \<open>child_splitter.split_documents([parent_chunk])\<close>: the library gives every piece of
  the text a copy of the document's metadata.
\<close>

definition split_documents :: "text_splitter \<Rightarrow> document \<Rightarrow> exn + document list" where
  "split_documents sp doc =
     (case sp (page_content doc) of
        Inl e \<Rightarrow> Inl e
      | Inr pieces \<Rightarrow> Inr (map (\<lambda>t. \<lparr>page_content = t, metadata = metadata doc\<rparr>) pieces))"

definition parent_id_of :: "ustr \<Rightarrow> nat \<Rightarrow> ustr" where
  "parent_id_of filename parent_idx = filename @ u ''_parent_'' @ str_nat parent_idx"

definition child_id_of :: "ustr \<Rightarrow> nat \<Rightarrow> ustr" where
  "child_id_of parent_id child_idx = parent_id @ u ''_child_'' @ str_nat child_idx"

definition set_child_metadata :: "ustr \<Rightarrow> ustr \<Rightarrow> nat \<times> document \<Rightarrow> document" where
  "set_child_metadata filename parent_id ic =
     (case ic of (child_idx, child_doc) \<Rightarrow>
        child_doc\<lparr>metadata := (metadata child_doc)
          \<lparr>source := Some filename,
           md_chunk_type := Some (u ''child''),
           md_parent_id := Some parent_id,
           md_content_length := Some (length (page_content child_doc)),
           md_child_id := Some (child_id_of parent_id child_idx),
           child_index := Some child_idx\<rparr>\<rparr>)"

text \<open>
  Step 4, the body of the loop over the parents: the updated parent, its children and
  the child ids stored under the parent's id.  The bound 500 is the literal of the source.
\<close>

definition process_parent ::
  "text_splitter \<Rightarrow> ustr \<Rightarrow> nat \<Rightarrow> document \<Rightarrow> exn + document \<times> document list \<times> ustr list" where
  "process_parent sp filename parent_idx parent_chunk =
     (let parent_id = parent_id_of filename parent_idx;
          p1 = parent_chunk\<lparr>metadata := (metadata parent_chunk)
                 \<lparr>source := Some filename,
                  md_chunk_type := Some (u ''parent''),
                  md_parent_id := Some parent_id,
                  parent_index := Some parent_idx,
                  md_content_length := Some (length (page_content parent_chunk))\<rparr>\<rparr>
      in if length (page_content p1) > 500 then
           (case split_documents sp p1 of
              Inl e \<Rightarrow> Inl e
            | Inr child_docs \<Rightarrow>
                Inr (p1,
                     map (set_child_metadata filename parent_id) (enumerate 0 child_docs),
                     map (child_id_of parent_id) [0 ..< length child_docs]))
         else
           Inr (p1\<lparr>metadata := (metadata p1)
                  \<lparr>md_is_standalone := Some True, skip_child_creation := Some True\<rparr>\<rparr>,
                [], []))"

text \<open>
  The loop itself.  The first exception ends it.  \<open>parent_child_mapping\<close> is a dict; an
  entry written later replaces one written earlier under the same key.
\<close>

fun chunk_parents ::
  "text_splitter \<Rightarrow> ustr \<Rightarrow> nat \<Rightarrow> document list \<Rightarrow>
   exn + document list \<times> document list \<times> (ustr \<rightharpoonup> ustr list)" where
  "chunk_parents sp filename parent_idx [] = Inr ([], [], Map.empty)"
| "chunk_parents sp filename parent_idx (p # ps) =
     (case process_parent sp filename parent_idx p of
        Inl e \<Rightarrow> Inl e
      | Inr (p', children, ids) \<Rightarrow>
          (case chunk_parents sp filename (Suc parent_idx) ps of
             Inl e \<Rightarrow> Inl e
           | Inr (parents, all_children, mapping) \<Rightarrow>
               Inr (p' # parents, children @ all_children,
                    [parent_id_of filename parent_idx \<mapsto> ids] ++ mapping)))"

record chunking_output =
  co_filename :: ustr
  parent_chunks :: "document list"
  child_chunks :: "document list"
  parent_child_mapping :: "ustr \<rightharpoonup> ustr list"
  total_parent_chunks :: nat
  total_child_chunks :: nat
  average_parent_size :: nat
  average_child_size :: nat

text \<open>
  The result dict: \<open>success\<close> true with the chunks, or \<open>success\<close> false with the message
  of the exception and the file name.
\<close>

datatype chunking_result = ChunkingOk chunking_output | ChunkingFailed ustr ustr

definition exn_str :: "exn \<Rightarrow> ustr" where
  "exn_str e =
     (case e of
        Exception m \<Rightarrow> m
      | JSONDecodeError \<Rightarrow> u ''JSONDecodeError''
      | AttributeError \<Rightarrow> u ''AttributeError''
      | TypeError \<Rightarrow> u ''TypeError'')"

definition average_size :: "document list \<Rightarrow> nat" where
  "average_size chunks =
     (if chunks = [] then 0
      else sum_list (map (\<lambda>c. length (page_content c)) chunks) div length chunks)"

definition chunk_markdown :: "chunker \<Rightarrow> ustr \<Rightarrow> ustr \<Rightarrow> chunking_result" where
  "chunk_markdown s markdown_content filename =
     (case markdown_splitter s (preprocess_markdown markdown_content) of
        Inl e \<Rightarrow> ChunkingFailed (exn_str e) filename
      | Inr split_chunks \<Rightarrow>
          (case chunk_parents (child_splitter s) filename 0
                  (map (restore_clause_header \<circ> section_document) split_chunks) of
             Inl e \<Rightarrow> ChunkingFailed (exn_str e) filename
           | Inr (parents, all_child_chunks, mapping) \<Rightarrow>
               ChunkingOk
                 \<lparr>co_filename = filename,
                  parent_chunks = parents,
                  child_chunks = all_child_chunks,
                  parent_child_mapping = mapping,
                  total_parent_chunks = length parents,
                  total_child_chunks = length all_child_chunks,
                  average_parent_size = average_size parents,
                  average_child_size = average_size all_child_chunks\<rparr>))"

text \<open>
  The dicts of \<open>create_vector_ready_chunks\<close>, which \<open>embed_chunked_documents\<close> extends.
  A field is \<open>None\<close> when the key is absent or holds Python's \<open>None\<close>.
\<close>

record headers =
  header_1 :: ustr
  header_2 :: ustr
  header_3 :: ustr
  header_4 :: ustr

record embedding_info =
  em_model_id :: ustr
  em_reason :: "ustr option"
  em_dimensions :: "nat option"
  em_normalized :: "bool option"
  em_chunk_type :: ustr

record vchunk =
  content :: "ustr option"
  chunk_metadata :: "metadata option"
  chunk_id :: "ustr option"
  parent_id :: "ustr option"
  child_id :: "ustr option"
  chunk_type :: "ustr option"
  headers :: "headers option"
  source_file :: "ustr option"
  content_length :: "nat option"
  is_standalone :: "bool option"
  embedding :: "rat list option"
  embedding_success :: "bool option"
  is_for_embedding :: "bool option"
  embedding_metadata :: "embedding_info option"
  embedding_error :: "ustr option"

definition get_str :: "ustr option \<Rightarrow> ustr" where
  "get_str v = (case v of None \<Rightarrow> [] | Some s \<Rightarrow> s)"

definition headers_of :: "metadata \<Rightarrow> headers" where
  "headers_of m =
     \<lparr>header_1 = get_str (Header_1 m), header_2 = get_str (Header_2 m),
      header_3 = get_str (Header_3 m), header_4 = get_str (Header_4 m)\<rparr>"

definition parent_data :: "document \<Rightarrow> vchunk" where
  "parent_data parent_chunk =
     (let m = metadata parent_chunk;
          standalone = (md_is_standalone m = Some True)
      in \<lparr>content = Some (page_content parent_chunk),
          chunk_metadata = Some m,
          chunk_id = md_parent_id m,
          parent_id = md_parent_id m,
          child_id = md_parent_id m,
          chunk_type = Some (u ''parent''),
          headers = Some (headers_of m),
          source_file = Some (get_str (source m)),
          content_length = Some (length (page_content parent_chunk)),
          is_standalone = Some standalone,
          embedding = None,
          embedding_success = Some False,
          is_for_embedding = Some standalone,
          embedding_metadata = None,
          embedding_error = None\<rparr>)"

definition child_data :: "document \<Rightarrow> vchunk" where
  "child_data child_chunk =
     (let m = metadata child_chunk
      in \<lparr>content = Some (page_content child_chunk),
          chunk_metadata = Some m,
          chunk_id = md_child_id m,
          parent_id = md_parent_id m,
          child_id = md_child_id m,
          chunk_type = Some (u ''child''),
          headers = Some (headers_of m),
          source_file = Some (get_str (source m)),
          content_length = Some (length (page_content child_chunk)),
          is_standalone = None,
          embedding = None,
          embedding_success = None,
          is_for_embedding = Some True,
          embedding_metadata = None,
          embedding_error = None\<rparr>)"

definition create_vector_ready_chunks :: "chunking_result \<Rightarrow> vchunk list" where
  "create_vector_ready_chunks chunking_result =
     (case chunking_result of
        ChunkingFailed err filename \<Rightarrow> []
      | ChunkingOk r \<Rightarrow> map parent_data (parent_chunks r) @ map child_data (child_chunks r))"


section \<open>src/aws/embedding_service.py: TitanEmbeddingService\<close>

record embedding_config =
  model_id :: ustr
  dimensions :: nat
  normalize :: bool
  region_name :: ustr

text \<open>
  \<open>self.embeddings.aembed_documents(texts)\<close> calls the embedding model: a parameter on
  the state of the outside world, which may raise.  \<open>create_batch_embeddings\<close> returns
  the empty list for no texts and passes every exception on.
\<close>

type_synonym 'w embedder = "'w \<Rightarrow> ustr list \<Rightarrow> (exn + rat list list) \<times> 'w"

definition create_batch_embeddings ::
  "'w embedder \<Rightarrow> 'w \<Rightarrow> ustr list \<Rightarrow> (exn + rat list list) \<times> 'w" where
  "create_batch_embeddings aembed_documents w texts =
     (if texts = [] then (Inr [], w) else aembed_documents w texts)"

text \<open>\<open>doc.get("is_for_embedding", True)\<close>.\<close>

definition wants_embedding :: "vchunk \<Rightarrow> bool" where
  "wants_embedding doc = (case is_for_embedding doc of None \<Rightarrow> True | Some b \<Rightarrow> b)"

text \<open>The two Korean messages: the reason stored with a parent, and the error of a
  target that received no vector.\<close>

definition parent_reason :: ustr where
  "parent_reason = u ''Parent chunk - '' @ [0xC784, 0xBCA0, 0xB529, 0x20, 0xBD88, 0xD544, 0xC694]"

definition blank_or_failed :: ustr where
  "blank_or_failed =
     [0xBE48, 0x20, 0xD14D, 0xC2A4, 0xD2B8, 0x20, 0xB610, 0xB294, 0x20, 0xCC98, 0xB9AC,
      0x20, 0xC2E4, 0xD328]"

definition non_embedding_doc :: "embedding_config \<Rightarrow> vchunk \<Rightarrow> vchunk" where
  "non_embedding_doc cfg doc =
     doc\<lparr>embedding := None,
         embedding_success := Some False,
         embedding_metadata :=
           Some \<lparr>em_model_id = model_id cfg, em_reason = Some parent_reason,
                 em_dimensions = None, em_normalized = None,
                 em_chunk_type = (case chunk_type doc of None \<Rightarrow> u ''unknown'' | Some t \<Rightarrow> t)\<rparr>\<rparr>"

definition embedded_doc :: "embedding_config \<Rightarrow> rat list \<Rightarrow> vchunk \<Rightarrow> vchunk" where
  "embedded_doc cfg vec doc =
     doc\<lparr>embedding := Some vec,
         embedding_success := Some True,
         embedding_metadata :=
           Some \<lparr>em_model_id = model_id cfg, em_reason = None,
                 em_dimensions = Some (length vec), em_normalized = Some (normalize cfg),
                 em_chunk_type = (case chunk_type doc of None \<Rightarrow> u ''child'' | Some t \<Rightarrow> t)\<rparr>\<rparr>"

definition unembedded_doc :: "vchunk \<Rightarrow> vchunk" where
  "unembedded_doc doc =
     doc\<lparr>embedding := None, embedding_success := Some False,
         embedding_error := Some blank_or_failed\<rparr>"

definition failed_doc :: "exn \<Rightarrow> vchunk \<Rightarrow> vchunk" where
  "failed_doc e doc =
     doc\<lparr>embedding := None, embedding_success := Some False,
         embedding_error := Some (exn_str e)\<rparr>"

text \<open>The first loop: the chunks to embed and the others, each with its position.\<close>

definition embedding_targets :: "vchunk list \<Rightarrow> (nat \<times> vchunk) list" where
  "embedding_targets chunked_documents =
     filter (\<lambda>(i, doc). wants_embedding doc) (enumerate 0 chunked_documents)"

definition non_embedding_chunks ::
  "embedding_config \<Rightarrow> vchunk list \<Rightarrow> (nat \<times> vchunk) list" where
  "non_embedding_chunks cfg chunked_documents =
     map (\<lambda>(i, doc). (i, non_embedding_doc cfg doc))
       (filter (\<lambda>(i, doc). \<not> wants_embedding doc) (enumerate 0 chunked_documents))"

text \<open>
  \<open>valid_texts\<close>: the texts of the targets that are not blank, each with its position
  among the targets.  Its second components are the argument of the batch call.
\<close>

definition valid_texts :: "vchunk list \<Rightarrow> (nat \<times> ustr) list" where
  "valid_texts chunked_documents =
     filter (\<lambda>(i, text). py_strip text \<noteq> [])
       (enumerate 0 (map (\<lambda>(i, doc). get_str (content doc))
                      (embedding_targets chunked_documents)))"

text \<open>
  The loop that merges the vectors back.  \<open>enhanced_documents\<close> starts as a list of
  \<open>None\<close> as long as the input; every position written comes from \<open>enumerate\<close> and is
  in range.
\<close>

fun merge_targets ::
  "embedding_config \<Rightarrow> nat list \<Rightarrow> rat list list \<Rightarrow> nat \<Rightarrow> nat \<Rightarrow> (nat \<times> vchunk) list \<Rightarrow>
   vchunk option list \<Rightarrow> vchunk option list" where
  "merge_targets cfg valid_indices embeddings target_idx embedding_index [] enhanced =
     enhanced"
| "merge_targets cfg valid_indices embeddings target_idx embedding_index
     ((original_idx, doc) # rest) enhanced =
     (if target_idx \<in> set valid_indices \<and> embedding_index < length embeddings then
        merge_targets cfg valid_indices embeddings (Suc target_idx) (Suc embedding_index) rest
          (enhanced[original_idx := Some (embedded_doc cfg (embeddings ! embedding_index) doc)])
      else
        merge_targets cfg valid_indices embeddings (Suc target_idx) embedding_index rest
          (enhanced[original_idx := Some (unembedded_doc doc)]))"

fun place_chunks :: "(nat \<times> vchunk) list \<Rightarrow> vchunk option list \<Rightarrow> vchunk option list" where
  "place_chunks [] enhanced = enhanced"
| "place_chunks ((original_idx, doc) # rest) enhanced =
     place_chunks rest (enhanced[original_idx := Some doc])"

definition present :: "vchunk option list \<Rightarrow> vchunk list" where
  "present enhanced = concat (map (\<lambda>d. case d of None \<Rightarrow> [] | Some doc \<Rightarrow> [doc]) enhanced)"

text \<open>
  \<open>embed_chunked_documents\<close>, with \<open>content_key\<close> at its default \<open>"content"\<close>.  The
  handler of the \<open>try\<close> block returns every input chunk marked as failed.
\<close>

definition embed_chunked_documents ::
  "embedding_config \<Rightarrow> 'w embedder \<Rightarrow> 'w \<Rightarrow> vchunk list \<Rightarrow> vchunk list \<times> 'w" where
  "embed_chunked_documents cfg aembed_documents w chunked_documents =
     (if chunked_documents = [] then ([], w)
      else if embedding_targets chunked_documents = [] then
        (map snd (non_embedding_chunks cfg chunked_documents), w)
      else if valid_texts chunked_documents = [] then (chunked_documents, w)
      else
        (case create_batch_embeddings aembed_documents w
                (map snd (valid_texts chunked_documents)) of
           (Inl e, w') \<Rightarrow> (map (failed_doc e) chunked_documents, w')
         | (Inr embeddings, w') \<Rightarrow>
             (present
                (place_chunks (non_embedding_chunks cfg chunked_documents)
                   (merge_targets cfg (map fst (valid_texts chunked_documents)) embeddings 0 0
                      (embedding_targets chunked_documents)
                      (replicate (length chunked_documents) None))), w')))"


section \<open>rag_pipeline.py: the three-stage chain\<close>

text \<open>
  The value \<open>json.loads\<close> returns.  An object is a dict, kept as a list of key and value
  in insertion order, each key once.
\<close>

datatype json =
  JNull | JBool bool | JInt int | JFloat rat | JStr ustr | JArr "json list"
  | JObj "(ustr \<times> json) list"

text \<open>\<open>d.get(key, default)\<close> and \<open>d[key] = value\<close> on such a dict.\<close>

definition dict_get :: "(ustr \<times> json) list \<Rightarrow> ustr \<Rightarrow> json \<Rightarrow> json" where
  "dict_get d key dflt = (case map_of d key of None \<Rightarrow> dflt | Some v \<Rightarrow> v)"



definition py_str :: "(json \<Rightarrow> ustr) \<Rightarrow> json \<Rightarrow> ustr" where
  "py_str fmt v = (case v of JStr s \<Rightarrow> s | _ \<Rightarrow> fmt v)"












subsection \<open>Stage 1\<close>






subsection \<open>Stage 2\<close>

text \<open>
  One row of the law search, and the dict \<open>search_documents_direct\<close> returns, of which
  only \<open>results\<close> is read.  A candidate with its evidence is the candidate's dict with the
  keys \<open>related_laws\<close> and \<open>laws_found\<close> set.
\<close>

record law =
  filename :: ustr
  law_content :: ustr
  law_similarity :: rat

record search_response =
  results :: "law list option"
  search_error :: "ustr option"

record violation_with_laws =
  candidate :: "(ustr \<times> json) list"
  related_laws :: "law list"
  laws_found :: nat

text \<open>
  The searches of stage 2 run concurrently under \<open>asyncio.gather\<close>.  The parameter
  gives the outcome of the search made by the task at a position of the candidate list,
  for its query, \<open>top_k\<close> and document types.
\<close>

type_synonym law_search = "nat \<Rightarrow> ustr \<Rightarrow> nat \<Rightarrow> ustr list \<Rightarrow> exn + search_response"

definition search_query_of :: "(json \<Rightarrow> ustr) \<Rightarrow> (ustr \<times> json) list \<Rightarrow> ustr" where
  "search_query_of fmt violation =
     py_str fmt (dict_get violation (u ''clause_title'') (JStr [])) @ u '' '' @
     py_str fmt (dict_get violation (u ''brief_reason'') (JStr []))"

text \<open>\<open>_search_laws_for_violation\<close>: the handler returns the candidate without laws.\<close>

definition search_laws_for_violation ::
  "law_search \<Rightarrow> nat \<Rightarrow> (ustr \<times> json) list \<Rightarrow> ustr \<Rightarrow> exn + violation_with_laws" where
  "search_laws_for_violation search_documents_direct task violation search_query =
     (case search_documents_direct task search_query 3 [u ''law''] of
        Inr legal_docs \<Rightarrow>
          (let found = (case results legal_docs of None \<Rightarrow> [] | Some rows \<Rightarrow> rows)
           in Inr \<lparr>candidate = violation, related_laws = found, laws_found = length found\<rparr>)
      | Inl e \<Rightarrow> Inr \<lparr>candidate = violation, related_laws = [], laws_found = 0\<rparr>)"

text \<open>
  \<open>_chain2_search_related_laws\<close>: \<open>gather(..., return_exceptions=True)\<close> returns the
  outcomes in the order of the tasks; an outcome that is an exception is logged and left
  out.
\<close>

definition chain2_search_related_laws ::
  "(json \<Rightarrow> ustr) \<Rightarrow> law_search \<Rightarrow> (ustr \<times> json) list list \<Rightarrow> violation_with_laws list" where
  "chain2_search_related_laws fmt search_documents_direct violation_candidates =
     concat (map (\<lambda>(task, violation).
                    case search_laws_for_violation search_documents_direct task violation
                           (search_query_of fmt violation) of
                      Inl e \<Rightarrow> []
                    | Inr result \<Rightarrow> [result])
               (enumerate 0 violation_candidates))"

subsection \<open>Stage 3\<close>















section \<open>rag_pipeline.py: splitting a contract into sections by hand\<close>












text \<open>
  \<open>_create_manual_sections\<close> reads the text from the parser's result with
  \<open>doc_parser_result.get("markdown_content", "")\<close> and returns no section for an
  empty text.
\<close>

record doc_parser_result =
  markdown_content :: "ustr option"


section \<open>Notions used in the statements, and concrete inputs\<close>

subsection \<open>Stage 2\<close>

text \<open>
  The evidence stage 2 attaches to the candidate of one task: the rows of that task's
  search, or no row when the search raised or returned no \<open>results\<close> key.
\<close>

definition evidence_of ::
  "law_search \<Rightarrow> (json \<Rightarrow> ustr) \<Rightarrow> nat \<Rightarrow> (ustr \<times> json) list \<Rightarrow> law list" where
  "evidence_of search fmt task violation =
     (case search task (search_query_of fmt violation) 3 [u ''law''] of
        Inl e \<Rightarrow> []
      | Inr legal_docs \<Rightarrow> (case results legal_docs of None \<Rightarrow> [] | Some rows \<Rightarrow> rows))"

text \<open>Two candidates; the search of the first task fails, the second finds one law.\<close>

definition wit_fmt :: "json \<Rightarrow> ustr" where
  "wit_fmt v = u ''?''"

definition wit_law_search :: law_search where
  "wit_law_search task query top_k doc_types =
     (if task = 0 then Inl (Exception (u ''timeout''))
      else Inr \<lparr>results = Some [\<lparr>filename = u ''civil_act.pdf'', law_content = u ''text'',
                                 law_similarity = 7 / 10\<rparr>],
                search_error = None\<rparr>)"

definition wit_candidates :: "(ustr \<times> json) list list" where
  "wit_candidates =
     [[(u ''clause_title'', JStr (u ''A''))], [(u ''clause_title'', JStr (u ''B''))]]"

subsection \<open>Hybrid search\<close>


text \<open>
  A global row with similarity 0.4 and a room row with similarity 0.6: under the default
  weights both have the weighted score 0.24.
\<close>

definition global_row :: search_result where
  "global_row =
     \<lparr>sr_chunk_id = 1, sr_content = u ''statute'', similarity_score = 4 / 10,
      is_room_document = None, weighted_score = None, source_type = None\<rparr>"


definition global_search_ok :: "nat vector_search" where
  "global_search_ok w query_embedding doc_types top_k = (Inr [global_row], Suc w)"


text \<open>A database that cannot be reached: every search raises.\<close>

definition global_search_down :: "nat vector_search" where
  "global_search_down w query_embedding doc_types top_k =
     (Inl (Exception (u ''connection refused'')), Suc w)"

definition room_search_down :: "nat room_search" where
  "room_search_down w query_embedding room doc_types top_k =
     (Inl (Exception (u ''connection refused'')), Suc w)"

subsection \<open>Chunking\<close>


text \<open>
  The parent as \<open>chunk_markdown\<close> leaves it: the keys every parent receives, and the two
  flags of a parent of at most 500 characters.  No splitter takes part.
\<close>

definition marked_parent :: "ustr \<Rightarrow> nat \<Rightarrow> document \<Rightarrow> document" where
  "marked_parent fname parent_idx parent_chunk =
     (let m = (metadata parent_chunk)
                \<lparr>source := Some fname,
                 md_chunk_type := Some (u ''parent''),
                 md_parent_id := Some (parent_id_of fname parent_idx),
                 parent_index := Some parent_idx,
                 md_content_length := Some (length (page_content parent_chunk))\<rparr>
      in if length (page_content parent_chunk) \<le> 500
         then parent_chunk\<lparr>metadata := m\<lparr>md_is_standalone := Some True,
                                          skip_child_creation := Some True\<rparr>\<rparr>
         else parent_chunk\<lparr>metadata := m\<rparr>)"

text \<open>
  A chunker for the examples.  Its markdown splitter returns two sections, a clause of
  600 characters and a clause of 100 characters; its child splitter cuts a text into a
  piece of 500 characters and the rest from character 450 on.
\<close>

definition wit_md_splitter :: markdown_splitter where
  "wit_md_splitter t =
     Inr [\<lparr>section_text = replicate 600 97, section_header_1 = None,
           section_header_2 = Some ([ch_je] @ u ''1'' @ [ch_jo]),
           section_header_3 = None, section_header_4 = None\<rparr>,
          \<lparr>section_text = replicate 100 98, section_header_1 = None,
           section_header_2 = Some ([ch_je] @ u ''2'' @ [ch_jo]),
           section_header_3 = None, section_header_4 = None\<rparr>]"

definition wit_child_splitter :: text_splitter where
  "wit_child_splitter t = Inr [take 500 t, drop 450 t]"

definition wit_chunker :: chunker where
  "wit_chunker =
     \<lparr>headers_to_split_on = [(u ''#'', u ''Header 1''), (u ''##'', u ''Header 2'')],
      markdown_splitter = wit_md_splitter, chunk_size = 500, chunk_overlap = 50,
      child_splitter = wit_child_splitter\<rparr>"

text \<open>A constructor of child splitters that accepts every size: pieces of that size.\<close>

definition wit_make_splitter :: "int \<Rightarrow> int \<Rightarrow> exn + text_splitter" where
  "wit_make_splitter n overlap = Inr (\<lambda>t. Inr [take (nat n) t, drop (nat n) t])"

subsection \<open>Paragraph fallback\<close>




subsection \<open>Embedding\<close>

text \<open>
  A chunk without the four keys the embedding step writes; two chunks with the same
  remainder agree on every other key.  And the test of the blank filter.
\<close>

definition strip_embedding :: "vchunk \<Rightarrow> vchunk" where
  "strip_embedding doc =
     doc\<lparr>embedding := None, embedding_success := None, embedding_metadata := None,
         embedding_error := None\<rparr>"

definition nonblank :: "vchunk \<Rightarrow> bool" where
  "nonblank doc \<longleftrightarrow> py_strip (get_str (content doc)) \<noteq> []"

text \<open>
  Chunks for the examples: none has the key \<open>is_for_embedding\<close>, unless stated.  An
  embedding model that returns for each text the vector holding its length, and counts
  its calls.
\<close>

definition plain_chunk :: "ustr \<Rightarrow> vchunk" where
  "plain_chunk text =
     \<lparr>content = Some text, chunk_metadata = None, chunk_id = None, parent_id = None,
      child_id = None, chunk_type = None, headers = None, source_file = None,
      content_length = None, is_standalone = None, embedding = None,
      embedding_success = None, is_for_embedding = None, embedding_metadata = None,
      embedding_error = None\<rparr>"

definition wit_config :: embedding_config where
  "wit_config =
     \<lparr>model_id = u ''amazon.titan-embed-text-v2:0'', dimensions = 1024, normalize = True,
      region_name = u ''ap-northeast-2''\<rparr>"

definition counting_embedder :: "nat embedder" where
  "counting_embedder w texts = (Inr (map (\<lambda>t. [of_nat (length t)]) texts), Suc w)"

definition wit_chunks :: "vchunk list" where
  "wit_chunks =
     [plain_chunk (u ''abc''),
      (plain_chunk (u ''a long parent''))\<lparr>is_for_embedding := Some False\<rparr>,
      plain_chunk (u ''hello'')]"

subsection \<open>The chain\<close>



















section \<open>Stage 2 keeps every candidate\<close>

lemma search_laws_total:
  "search_laws_for_violation search task violation (search_query_of fmt violation) =
     Inr \<lparr>candidate = violation, related_laws = evidence_of search fmt task violation,
          laws_found = length (evidence_of search fmt task violation)\<rparr>"
  by (simp add: search_laws_for_violation_def evidence_of_def Let_def
           split: sum.splits option.splits)

lemma chain2_as_map:
  "chain2_search_related_laws fmt search cands =
     map (\<lambda>(task, violation).
            \<lparr>candidate = violation, related_laws = evidence_of search fmt task violation,
             laws_found = length (evidence_of search fmt task violation)\<rparr>)
       (enumerate 0 cands)"
proof -
  have "(\<lambda>(task, violation).
           case search_laws_for_violation search task violation (search_query_of fmt violation) of
             Inl e \<Rightarrow> [] | Inr result \<Rightarrow> [result]) =
        (\<lambda>tv. [(\<lambda>(task, violation).
            \<lparr>candidate = violation, related_laws = evidence_of search fmt task violation,
             laws_found = length (evidence_of search fmt task violation)\<rparr>) tv])"
    by (auto simp: search_laws_total fun_eq_iff)
  then show ?thesis
    unfolding chain2_search_related_laws_def by simp
qed

text \<open>
  C8.  Stage 2 returns one entry for each candidate, in order.  The entry holds the
  candidate, its list of related laws and \<open>laws_found\<close>, the length of that list.  The
  list is empty, and the count 0, when the candidate's own search raised.  The entry of a
  candidate depends on the outcome of its own search only: changing the outcomes of the
  other searches, for instance making them fail, leaves it as it is.
\<close>

theorem chain2_keeps_every_candidate:
  "length (chain2_search_related_laws fmt search cands) = length cands \<and>
   (\<forall>i < length cands.
      candidate (chain2_search_related_laws fmt search cands ! i) = cands ! i \<and>
      laws_found (chain2_search_related_laws fmt search cands ! i) =
        length (related_laws (chain2_search_related_laws fmt search cands ! i)) \<and>
      related_laws (chain2_search_related_laws fmt search cands ! i) =
        (case search i (search_query_of fmt (cands ! i)) 3 [u ''law''] of
           Inl e \<Rightarrow> []
         | Inr legal_docs \<Rightarrow> (case results legal_docs of None \<Rightarrow> [] | Some rows \<Rightarrow> rows)) \<and>
      (\<forall>search'. search' i = search i \<longrightarrow>
         chain2_search_related_laws fmt search' cands ! i =
         chain2_search_related_laws fmt search cands ! i))"
  by (simp add: chain2_as_map nth_enumerate_eq evidence_of_def)

theorem chain2_keeps_every_candidate_witness:
  "length (chain2_search_related_laws wit_fmt wit_law_search wit_candidates) = 2 \<and>
   wit_law_search 0 (search_query_of wit_fmt (wit_candidates ! 0)) 3 [u ''law''] =
     Inl (Exception (u ''timeout'')) \<and>
   related_laws (chain2_search_related_laws wit_fmt wit_law_search wit_candidates ! 0) = [] \<and>
   laws_found (chain2_search_related_laws wit_fmt wit_law_search wit_candidates ! 0) = 0 \<and>
   candidate (chain2_search_related_laws wit_fmt wit_law_search wit_candidates ! 1) =
     [(u ''clause_title'', JStr (u ''B''))] \<and>
   laws_found (chain2_search_related_laws wit_fmt wit_law_search wit_candidates ! 1) = 1"
proof -
  have len: "length wit_candidates = 2"
    by (simp add: wit_candidates_def)
  note T = chain2_keeps_every_candidate [of wit_fmt wit_law_search wit_candidates]
  have t0: "(0::nat) < length wit_candidates" and t1: "(1::nat) < length wit_candidates"
    using len by simp_all
  from T have every: "\<forall>i < length wit_candidates.
      candidate (chain2_search_related_laws wit_fmt wit_law_search wit_candidates ! i) =
        wit_candidates ! i \<and>
      laws_found (chain2_search_related_laws wit_fmt wit_law_search wit_candidates ! i) =
        length (related_laws (chain2_search_related_laws wit_fmt wit_law_search wit_candidates ! i)) \<and>
      related_laws (chain2_search_related_laws wit_fmt wit_law_search wit_candidates ! i) =
        (case wit_law_search i (search_query_of wit_fmt (wit_candidates ! i)) 3 [u ''law''] of
           Inl e \<Rightarrow> []
         | Inr legal_docs \<Rightarrow> (case results legal_docs of None \<Rightarrow> [] | Some rows \<Rightarrow> rows))"
    by blast
  from T len have "length (chain2_search_related_laws wit_fmt wit_law_search wit_candidates) = 2"
    by simp
  moreover have "wit_law_search 0 (search_query_of wit_fmt (wit_candidates ! 0)) 3 [u ''law''] =
     Inl (Exception (u ''timeout''))"
    by (simp add: wit_law_search_def)
  moreover from every t0 have
    "related_laws (chain2_search_related_laws wit_fmt wit_law_search wit_candidates ! 0) = []"
    "laws_found (chain2_search_related_laws wit_fmt wit_law_search wit_candidates ! 0) = 0"
    by (simp_all add: wit_law_search_def)
  moreover from every t1 have
    "candidate (chain2_search_related_laws wit_fmt wit_law_search wit_candidates ! 1) =
       [(u ''clause_title'', JStr (u ''B''))]"
    "laws_found (chain2_search_related_laws wit_fmt wit_law_search wit_candidates ! 1) = 1"
    by (simp_all add: wit_law_search_def wit_candidates_def)
  ultimately show ?thesis by blast
qed

section \<open>Hybrid search: the fused order and the fallback\<close>













text \<open>
  C7, as the code has it.  When a step of the \<open>try\<close> block raises, be it the global
  search or the room search, the hybrid search runs the global search once more, with
  the same query embedding, document types and \<open>top_k\<close>, and its outcome is the outcome
  of that call: the rows it returns, or the exception it raises.
\<close>

theorem hybrid_fallback_is_global_search:
  assumes "sbv w qe doc_types top_k = (Inl e, w') \<or>
           (\<exists>system_results w1 rid.
              sbv w qe doc_types top_k = (Inr system_results, w1) \<and> room_id = Some rid \<and>
              sbvr w1 qe rid doc_types top_k = (Inl e, w'))"
  shows "search_documents_hybrid sbv sbvr w qe room_id doc_types top_k sw rw =
           sbv w' qe doc_types top_k"
  using assms
  by (auto simp: search_documents_hybrid_def hybrid_try_def)

theorem hybrid_fallback_is_global_search_witness:
  "global_search_ok 0 [] None 15 = (Inr [global_row], 1) \<and>
   room_search_down 1 [] 7 None 15 = (Inl (Exception (u ''connection refused'')), 2) \<and>
   search_documents_hybrid global_search_ok room_search_down 0 [] (Some 7) None 15
       default_system_weight default_room_weight = (Inr [global_row], 3)"
proof -
  have g: "global_search_ok 0 [] None 15 = (Inr [global_row], 1)"
    by (simp add: global_search_ok_def)
  have r: "room_search_down 1 [] 7 None 15 = (Inl (Exception (u ''connection refused'')), 2)"
    by (simp add: room_search_down_def)
  have "global_search_ok 0 [] None 15 = (Inl (Exception (u ''connection refused'')), 2) \<or>
        (\<exists>system_results w1 rid.
           global_search_ok 0 [] None 15 = (Inr system_results, w1) \<and> Some (7::int) = Some rid \<and>
           room_search_down w1 [] rid None 15 = (Inl (Exception (u ''connection refused'')), 2))"
    using g r by blast
  from hybrid_fallback_is_global_search [where sbv = global_search_ok
      and sbvr = room_search_down and sw = default_system_weight
      and rw = default_room_weight, OF this]
  have "search_documents_hybrid global_search_ok room_search_down 0 [] (Some 7) None 15
       default_system_weight default_room_weight = global_search_ok 2 [] None 15" .
  then show ?thesis
    using g r by (simp add: global_search_ok_def)
qed

text \<open>
  With the database out of reach the global search raises in the \<open>try\<close> block and again
  in the handler: the hybrid search raises to its caller.
\<close>

theorem hybrid_fallback_counterexample:
  "search_documents_hybrid global_search_down room_search_down 0 [] (Some 7) None 15
       default_system_weight default_room_weight =
     (Inl (Exception (u ''connection refused'')), 2)"
  by (simp add: search_documents_hybrid_def hybrid_try_def global_search_down_def)

section \<open>Chunking: one embedding target per parent, and the fixed threshold\<close>




lemma process_parent_small:
  "length (page_content p) \<le> 500 \<Longrightarrow>
   process_parent sp fn j p =
     Inr (p\<lparr>metadata := (metadata p)
            \<lparr>source := Some fn, md_chunk_type := Some (u ''parent''),
             md_parent_id := Some (parent_id_of fn j), parent_index := Some j,
             md_content_length := Some (length (page_content p)),
             md_is_standalone := Some True, skip_child_creation := Some True\<rparr>\<rparr>, [], [])"
  by (simp add: process_parent_def Let_def)




lemma chunk_markdown_ok:
  assumes "chunk_markdown s md fn = ChunkingOk r"
  shows "\<exists>secs kids m.
     markdown_splitter s (preprocess_markdown md) = Inr secs \<and>
     chunk_parents (child_splitter s) fn 0
       (map (restore_clause_header \<circ> section_document) secs) =
       Inr (parent_chunks r, kids, m) \<and>
     child_chunks r = kids"
  using assms
  by (auto simp: chunk_markdown_def split: sum.splits prod.splits)

lemma fresh_section_not_standalone:
  "md_is_standalone (metadata ((restore_clause_header \<circ> section_document) sec)) = None"
  by (simp add: restore_clause_header_def section_document_def split: option.splits)




lemmas wit_chunking_defs =
  create_vector_ready_chunks_def chunk_markdown_def wit_chunker_def wit_md_splitter_def
  wit_child_splitter_def preprocess_markdown_def preprocess_line_def py_strip_def
  clause_header_match_def restore_clause_header_def section_document_def startswith_def
  process_parent_def split_documents_def Let_def set_child_metadata_def enumerate_eq_zip
  average_size_def ch_je_def ch_jo_def parent_data_def child_data_def headers_of_def
  get_str_def



lemma process_parent_marked:
  "process_parent sp fn j p = Inr (p', ch, ids) \<Longrightarrow> p' = marked_parent fn j p"
  by (auto simp: process_parent_def marked_parent_def Let_def split: if_splits sum.splits)

lemma chunk_parents_marked:
  "chunk_parents sp fn i ps = Inr (parents, kids, m) \<Longrightarrow>
   parents = map (\<lambda>(j, p). marked_parent fn j p) (enumerate i ps)"
proof (induction ps arbitrary: i parents kids m)
  case Nil
  then show ?case by simp
next
  case (Cons p ps)
  from Cons.prems obtain p' ch ids parents' kids' m'
    where head: "process_parent sp fn i p = Inr (p', ch, ids)"
      and tail: "chunk_parents sp fn (Suc i) ps = Inr (parents', kids', m')"
      and eqs: "parents = p' # parents'"
    by (auto split: sum.splits prod.splits)
  from Cons.IH [OF tail] process_parent_marked [OF head] eqs show ?case
    by simp
qed

lemma marked_parent_flag:
  "md_is_standalone (metadata p) = None \<Longrightarrow>
   (md_is_standalone (metadata (marked_parent fn j p)) = Some True) =
     (length (page_content (marked_parent fn j p)) \<le> 500)"
  by (simp add: marked_parent_def Let_def)

lemma parents_of_chunk_markdown:
  assumes "chunk_markdown s md fn = ChunkingOk r"
  shows "\<exists>secs. markdown_splitter s (preprocess_markdown md) = Inr secs \<and>
     parent_chunks r =
       map (\<lambda>(j, p). marked_parent fn j p)
         (enumerate 0 (map (restore_clause_header \<circ> section_document) secs))"
proof -
  from chunk_markdown_ok [OF assms] obtain secs kids m
    where "markdown_splitter s (preprocess_markdown md) = Inr secs"
      and "chunk_parents (child_splitter s) fn 0
             (map (restore_clause_header \<circ> section_document) secs) =
           Inr (parent_chunks r, kids, m)"
    by blast
  then show ?thesis
    using chunk_parents_marked by blast
qed

lemma threshold_of_chunk_markdown:
  assumes "chunk_markdown s md fn = ChunkingOk r" and "p \<in> set (parent_chunks r)"
  shows "(md_is_standalone (metadata p) = Some True) = (length (page_content p) \<le> 500)"
proof -
  from parents_of_chunk_markdown [OF assms(1)] obtain secs
    where "parent_chunks r =
       map (\<lambda>(j, p). marked_parent fn j p)
         (enumerate 0 (map (restore_clause_header \<circ> section_document) secs))"
    by blast
  with assms(2) obtain j sec
    where "p = marked_parent fn j ((restore_clause_header \<circ> section_document) sec)"
    by (auto simp: in_set_enumerate_eq)
  then show ?thesis
    using marked_parent_flag [OF fresh_section_not_standalone] by simp
qed

text \<open>
  C10.  \<open>update_chunk_settings\<close> changes the chunk size, the chunk overlap and (when the
  library accepts the new values) the child splitter, and nothing else of the chunker.
  Whatever the settings, a parent is kept whole exactly when its text has at most 500
  characters; the parents \<open>chunk_markdown\<close> returns, with their flags, are the same
  before and after an update.
\<close>

theorem update_chunk_settings_keeps_threshold:
  "(snd (update_chunk_settings mk n ov s))
     \<lparr>chunk_size := chunk_size s, chunk_overlap := chunk_overlap s,
      child_splitter := child_splitter s\<rparr> = s \<and>
   chunk_size (snd (update_chunk_settings mk n ov s)) = n \<and>
   chunk_overlap (snd (update_chunk_settings mk n ov s)) = ov \<and>
   child_splitter (snd (update_chunk_settings mk n ov s)) =
     (case mk n ov of Inl e \<Rightarrow> child_splitter s | Inr sp \<Rightarrow> sp) \<and>
   (\<forall>md fn r. chunk_markdown (snd (update_chunk_settings mk n ov s)) md fn = ChunkingOk r \<longrightarrow>
      (\<forall>p \<in> set (parent_chunks r).
         (md_is_standalone (metadata p) = Some True) = (length (page_content p) \<le> 500))) \<and>
   (\<forall>md fn r r'.
      chunk_markdown s md fn = ChunkingOk r \<and>
      chunk_markdown (snd (update_chunk_settings mk n ov s)) md fn = ChunkingOk r' \<longrightarrow>
      parent_chunks r' = parent_chunks r)"
proof -
  let ?s' = "snd (update_chunk_settings mk n ov s)"
  have frame: "?s'\<lparr>chunk_size := chunk_size s, chunk_overlap := chunk_overlap s,
                   child_splitter := child_splitter s\<rparr> = s"
    and size: "chunk_size ?s' = n" and overlap: "chunk_overlap ?s' = ov"
    and splitter: "child_splitter ?s' =
      (case mk n ov of Inl e \<Rightarrow> child_splitter s | Inr sp \<Rightarrow> sp)"
    and md: "markdown_splitter ?s' = markdown_splitter s"
    by (simp_all add: update_chunk_settings_def create_child_splitter_def split: sum.splits)
  have same: "parent_chunks r' = parent_chunks r"
    if "chunk_markdown s md fn = ChunkingOk r" "chunk_markdown ?s' md fn = ChunkingOk r'"
    for md fn r r'
    using parents_of_chunk_markdown [OF that(1)] parents_of_chunk_markdown [OF that(2)] md
    by auto
  from frame size overlap splitter same threshold_of_chunk_markdown show ?thesis
    by blast
qed

theorem update_chunk_settings_keeps_threshold_witness:
  "chunk_size (snd (update_chunk_settings wit_make_splitter 200 20 wit_chunker)) = 200 \<and>
   chunk_overlap (snd (update_chunk_settings wit_make_splitter 200 20 wit_chunker)) = 20 \<and>
   (case chunk_markdown (snd (update_chunk_settings wit_make_splitter 200 20 wit_chunker))
           [] (u ''doc'') of
      ChunkingFailed err fname \<Rightarrow> False
    | ChunkingOk r \<Rightarrow>
        map (\<lambda>p. length (page_content p)) (parent_chunks r) = [600, 100] \<and>
        map (\<lambda>p. md_is_standalone (metadata p) = Some True) (parent_chunks r) = [False, True])"
proof -
  let ?s' = "snd (update_chunk_settings wit_make_splitter 200 20 wit_chunker)"
  note T = update_chunk_settings_keeps_threshold
    [where mk = wit_make_splitter and n = 200 and ov = 20 and s = wit_chunker]
  obtain r where ok: "chunk_markdown ?s' [] (u ''doc'') = ChunkingOk r"
    and lens: "map (\<lambda>p. length (page_content p)) (parent_chunks r) = [600, 100]"
    by (simp add: wit_chunking_defs update_chunk_settings_def create_child_splitter_def
          wit_make_splitter_def)
  from T ok have flags: "\<forall>p \<in> set (parent_chunks r).
      (md_is_standalone (metadata p) = Some True) = (length (page_content p) \<le> 500)"
    by blast
  from lens obtain p0 p1 where ps: "parent_chunks r = [p0, p1]"
    "length (page_content p0) = 600" "length (page_content p1) = 100"
    by auto
  with flags have "map (\<lambda>p. md_is_standalone (metadata p) = Some True) (parent_chunks r) =
      [False, True]"
    by simp
  with T ok lens show ?thesis
    by simp
qed

section \<open>The paragraph fallback\<close>













section \<open>Embedding keeps the positions of the chunks\<close>

lemma strip_embedding_written [simp]:
  "strip_embedding (embedded_doc cfg v d) = strip_embedding d"
  "strip_embedding (unembedded_doc d) = strip_embedding d"
  "strip_embedding (non_embedding_doc cfg d) = strip_embedding d"
  "strip_embedding (failed_doc e d) = strip_embedding d"
  by (simp_all add: strip_embedding_def embedded_doc_def unembedded_doc_def
        non_embedding_doc_def failed_doc_def)

lemma targets_mem:
  "(i, d) \<in> set (embedding_targets docs) \<longleftrightarrow> i < length docs \<and> d = docs ! i \<and> wants_embedding d"
  by (auto simp: embedding_targets_def in_set_enumerate_eq)

lemma non_targets_mem:
  "(i, d) \<in> set (non_embedding_chunks cfg docs) \<longleftrightarrow>
     i < length docs \<and> d = non_embedding_doc cfg (docs ! i) \<and> \<not> wants_embedding (docs ! i)"
  by (auto simp: non_embedding_chunks_def in_set_enumerate_eq image_iff)

lemma distinct_targets: "distinct (map fst (embedding_targets docs))"
  by (simp add: embedding_targets_def distinct_map_filter)

text \<open>What the merge loop writes, whatever the vectors.\<close>

lemma merge_targets_length [simp]:
  "length (merge_targets cfg vi embs t ei ts acc) = length acc"
  by (induction ts arbitrary: t ei acc) (auto split: prod.splits)

lemma merge_targets_other:
  "i \<notin> fst ` set ts \<Longrightarrow> merge_targets cfg vi embs t ei ts acc ! i = acc ! i"
  by (induction ts arbitrary: t ei acc) (auto split: prod.splits)

lemma merge_targets_written:
  assumes "i \<in> fst ` set ts" "\<forall>(oi, x) \<in> set ts. oi < length acc"
  shows "\<exists>d' v. (i, d') \<in> set ts \<and>
           (merge_targets cfg vi embs t ei ts acc ! i = Some (embedded_doc cfg v d') \<or>
            merge_targets cfg vi embs t ei ts acc ! i = Some (unembedded_doc d'))"
  using assms
proof (induction ts arbitrary: t ei acc)
  case Nil
  then show ?case by simp
next
  case (Cons a ts)
  obtain oi x where a: "a = (oi, x)" by (cases a)
  from Cons.prems(2) a have oi: "oi < length acc"
    by simp
  have "\<exists>t' ei' acc'.
      merge_targets cfg vi embs t ei (a # ts) acc = merge_targets cfg vi embs t' ei' ts acc' \<and>
      length acc' = length acc \<and>
      (\<exists>v. acc' ! oi = Some (embedded_doc cfg v x) \<or> acc' ! oi = Some (unembedded_doc x))"
  proof (cases "t \<in> set vi \<and> ei < length embs")
    case True
    with oi show ?thesis
      by (intro exI [of _ "Suc t"] exI [of _ "Suc ei"]
            exI [of _ "acc[oi := Some (embedded_doc cfg (embs ! ei) x)]"])
         (auto simp: a)
  next
    case False
    with oi show ?thesis
      by (intro exI [of _ "Suc t"] exI [of _ ei]
            exI [of _ "acc[oi := Some (unembedded_doc x)]"])
         (auto simp: a)
  qed
  then obtain t' ei' acc' where step:
      "merge_targets cfg vi embs t ei (a # ts) acc = merge_targets cfg vi embs t' ei' ts acc'"
    and len: "length acc' = length acc"
    and val: "\<exists>v. acc' ! oi = Some (embedded_doc cfg v x) \<or> acc' ! oi = Some (unembedded_doc x)"
    by blast
  show ?case
  proof (cases "i \<in> fst ` set ts")
    case True
    from Cons.prems(2) len have "\<forall>(oi, x) \<in> set ts. oi < length acc'"
      by simp
    from Cons.IH [OF True this, of t' ei'] step show ?thesis
      by auto
  next
    case False
    with Cons.prems(1) a have "i = oi"
      by (auto simp: image_iff)
    with False val step show ?thesis
      by (auto simp: a merge_targets_other)
  qed
qed

lemma place_chunks_length [simp]: "length (place_chunks ts acc) = length acc"
  by (induction ts arbitrary: acc) (auto split: prod.splits)

lemma place_chunks_other:
  "i \<notin> fst ` set ts \<Longrightarrow> place_chunks ts acc ! i = acc ! i"
  by (induction ts arbitrary: acc) (auto split: prod.splits)

lemma place_chunks_written:
  assumes "i \<in> fst ` set ts" "\<forall>(oi, x) \<in> set ts. oi < length acc"
  shows "\<exists>d'. (i, d') \<in> set ts \<and> place_chunks ts acc ! i = Some d'"
  using assms
proof (induction ts arbitrary: acc)
  case Nil
  then show ?case by simp
next
  case (Cons a ts)
  obtain oi x where a: "a = (oi, x)" by (cases a)
  from Cons.prems(2) a have oi: "oi < length acc"
    by simp
  show ?case
  proof (cases "i \<in> fst ` set ts")
    case True
    from Cons.prems(2) have "\<forall>(oi', x') \<in> set ts. oi' < length (acc[oi := Some x])"
      by simp
    from Cons.IH [OF True this] show ?thesis
      by (auto simp: a)
  next
    case False
    with Cons.prems(1) a have "i = oi"
      by (auto simp: image_iff)
    with False oi show ?thesis
      by (auto simp: a place_chunks_other)
  qed
qed

lemma present_all_some:
  "\<forall>i < length xs. \<exists>d. xs ! i = Some d \<Longrightarrow> present xs = map the xs"
proof (induction xs)
  case Nil
  then show ?case by (simp add: present_def)
next
  case (Cons x xs)
  from Cons.prems have "\<exists>d. x = Some d" by auto
  moreover from Cons.prems have "\<forall>i < length xs. \<exists>d. xs ! i = Some d" by auto
  ultimately show ?case
    using Cons.IH by (auto simp: present_def)
qed


lemma filter_enumerate_snd:
  "map snd (filter (\<lambda>(i, d). P d) (enumerate n xs)) = filter P xs"
  by (induction xs arbitrary: n) auto

lemma filter_enumerate_snd':
  "map snd (filter (\<lambda>p. P (snd p)) (enumerate n xs)) = filter P xs"
  using filter_enumerate_snd [of P n xs] by (simp add: split_def)

lemma targets_docs: "map snd (embedding_targets docs) = filter wants_embedding docs"
  by (simp add: embedding_targets_def filter_enumerate_snd)

lemma non_targets_docs:
  "map snd (non_embedding_chunks cfg docs) =
     map (non_embedding_doc cfg) (filter (\<lambda>d. \<not> wants_embedding d) docs)"
proof -
  have "map snd (non_embedding_chunks cfg docs) =
        map (non_embedding_doc cfg)
          (map snd (filter (\<lambda>p. \<not> wants_embedding (snd p)) (enumerate 0 docs)))"
    by (simp add: non_embedding_chunks_def split_def comp_def)
  also have "\<dots> = map (non_embedding_doc cfg) (filter (\<lambda>d. \<not> wants_embedding d) docs)"
    using filter_enumerate_snd' [of "\<lambda>d. \<not> wants_embedding d" 0 docs] by simp
  finally show ?thesis .
qed

lemma batch_texts:
  "map snd (valid_texts docs) =
     map (\<lambda>d. get_str (content d)) (filter (\<lambda>d. wants_embedding d \<and> nonblank d) docs)"
proof -
  have "map snd (valid_texts docs) =
        filter (\<lambda>t. py_strip t \<noteq> [])
          (map (\<lambda>d. get_str (content d)) (map snd (embedding_targets docs)))"
    using filter_enumerate_snd' [of "\<lambda>t. py_strip t \<noteq> []" 0
        "map (\<lambda>p. get_str (content (snd p))) (embedding_targets docs)"]
    by (simp add: valid_texts_def split_def comp_def)
  also have "\<dots> = map (\<lambda>d. get_str (content d))
                    (filter nonblank (filter wants_embedding docs))"
    by (simp add: targets_docs filter_map comp_def nonblank_def)
  finally show ?thesis
    by (simp add: conj_commute)
qed

lemma enhanced_entries:
  assumes "i < length docs"
  shows "\<exists>x. place_chunks (non_embedding_chunks cfg docs)
              (merge_targets cfg vi embs t ei (embedding_targets docs)
                 (replicate (length docs) None)) ! i = Some x \<and>
             strip_embedding x = strip_embedding (docs ! i)"
proof (cases "wants_embedding (docs ! i)")
  case True
  with assms have "(i, docs ! i) \<in> set (embedding_targets docs)"
    by (simp add: targets_mem)
  then have "i \<in> fst ` set (embedding_targets docs)"
    by (metis fst_conv image_eqI)
  moreover have "\<forall>(oi, x) \<in> set (embedding_targets docs).
                   oi < length (replicate (length docs) (None :: vchunk option))"
    by (auto simp: targets_mem)
  ultimately obtain d' v where "(i, d') \<in> set (embedding_targets docs)"
    and "merge_targets cfg vi embs t ei (embedding_targets docs)
           (replicate (length docs) None) ! i = Some (embedded_doc cfg v d') \<or>
         merge_targets cfg vi embs t ei (embedding_targets docs)
           (replicate (length docs) None) ! i = Some (unembedded_doc d')"
    using merge_targets_written by blast
  moreover from True have "i \<notin> fst ` set (non_embedding_chunks cfg docs)"
    by (auto simp: non_targets_mem)
  ultimately show ?thesis
    by (auto simp: place_chunks_other targets_mem)
next
  case False
  with assms have "(i, non_embedding_doc cfg (docs ! i)) \<in> set (non_embedding_chunks cfg docs)"
    by (simp add: non_targets_mem)
  then have "i \<in> fst ` set (non_embedding_chunks cfg docs)"
    by (metis fst_conv image_eqI)
  moreover have "\<forall>(oi, x) \<in> set (non_embedding_chunks cfg docs).
      oi < length (merge_targets cfg vi embs t ei (embedding_targets docs)
                     (replicate (length docs) None))"
    by (auto simp: non_targets_mem)
  ultimately obtain d' where "(i, d') \<in> set (non_embedding_chunks cfg docs)"
    and "place_chunks (non_embedding_chunks cfg docs)
           (merge_targets cfg vi embs t ei (embedding_targets docs)
              (replicate (length docs) None)) ! i = Some d'"
    using place_chunks_written by blast
  then show ?thesis
    by (auto simp: non_targets_mem)
qed

lemma present_enhanced:
  "present (place_chunks (non_embedding_chunks cfg docs)
              (merge_targets cfg vi embs t ei (embedding_targets docs)
                 (replicate (length docs) None))) =
   map the (place_chunks (non_embedding_chunks cfg docs)
              (merge_targets cfg vi embs t ei (embedding_targets docs)
                 (replicate (length docs) None)))"
  by (rule present_all_some) (use enhanced_entries in fastforce)

lemma embed_positional:
  "length (fst (embed_chunked_documents cfg aembed w docs)) = length docs \<and>
   (\<forall>i < length docs.
      strip_embedding (fst (embed_chunked_documents cfg aembed w docs) ! i) =
      strip_embedding (docs ! i))"
proof (cases "docs = []")
  case True
  then show ?thesis by (simp add: embed_chunked_documents_def)
next
  case nonempty: False
  show ?thesis
  proof (cases "embedding_targets docs = []")
    case True
    then have "filter wants_embedding docs = []"
      using targets_docs [of docs] by simp
    then have "filter (\<lambda>d. \<not> wants_embedding d) docs = docs"
      by (simp add: filter_empty_conv)
    then have "map snd (non_embedding_chunks cfg docs) = map (non_embedding_doc cfg) docs"
      by (simp add: non_targets_docs)
    with nonempty True show ?thesis
      by (simp add: embed_chunked_documents_def)
  next
    case targets: False
    show ?thesis
    proof (cases "valid_texts docs = []")
      case True
      with nonempty targets show ?thesis
        by (simp add: embed_chunked_documents_def)
    next
      case valid: False
      obtain res w' where call:
        "create_batch_embeddings aembed w (map snd (valid_texts docs)) = (res, w')"
        by (cases "create_batch_embeddings aembed w (map snd (valid_texts docs))")
      show ?thesis
      proof (cases res)
        case (Inl e)
        with nonempty targets valid call show ?thesis
          by (simp add: embed_chunked_documents_def)
      next
        case (Inr embs)
        let ?enh = "place_chunks (non_embedding_chunks cfg docs)
              (merge_targets cfg (map fst (valid_texts docs)) embs 0 0 (embedding_targets docs)
                 (replicate (length docs) None))"
        from Inr nonempty targets valid call
        have out: "fst (embed_chunked_documents cfg aembed w docs) = map the ?enh"
          by (simp add: embed_chunked_documents_def present_enhanced)
        have "strip_embedding (map the ?enh ! i) = strip_embedding (docs ! i)"
          if "i < length docs" for i
          using enhanced_entries [OF that, of cfg "map fst (valid_texts docs)" embs 0 0] that
          by auto
        with out show ?thesis
          by simp
      qed
    qed
  qed
qed


text \<open>Which vector a target receives when the model returned enough vectors.\<close>

lemma merge_targets_vectors:
  assumes "distinct (map fst ts)" "\<forall>(oi, x) \<in> set ts. oi < length acc"
    and "\<forall>k < length ts. (t + k \<in> set vi) = nonblank (snd (ts ! k))"
    and "ei + length (filter (\<lambda>p. nonblank (snd p)) ts) \<le> length embs"
    and "k < length ts" "nonblank (snd (ts ! k))"
  shows "merge_targets cfg vi embs t ei ts acc ! fst (ts ! k) =
           Some (embedded_doc cfg
                   (embs ! (ei + length (filter (\<lambda>p. nonblank (snd p)) (take k ts))))
                   (snd (ts ! k)))"
  using assms
proof (induction ts arbitrary: t ei acc k)
  case Nil
  then show ?case by simp
next
  case (Cons a ts)
  obtain oi x where a: "a = (oi, x)" by (cases a)
  from Cons.prems(2) a have oi: "oi < length acc"
    by simp
  from Cons.prems(1) a have fresh: "oi \<notin> fst ` set ts" and dist: "distinct (map fst ts)"
    by (auto simp: image_iff)
  from Cons.prems(3) have head: "(t \<in> set vi) = nonblank x"
    by (auto simp: a)
  from Cons.prems(3) have tail: "\<forall>k < length ts. (Suc t + k \<in> set vi) = nonblank (snd (ts ! k))"
    by fastforce
  show ?case
  proof (cases "nonblank x")
    case True
    with Cons.prems(4) a have room: "ei < length embs"
      and rest: "Suc ei + length (filter (\<lambda>p. nonblank (snd p)) ts) \<le> length embs"
      by simp_all
    show ?thesis
    proof (cases k)
      case 0
      with True head room oi fresh show ?thesis
        by (simp add: a merge_targets_other)
    next
      case (Suc k')
      with Cons.prems(5,6) have k': "k' < length ts" "nonblank (snd (ts ! k'))"
        by simp_all
      from Cons.prems(2) have "\<forall>(oi', x') \<in> set ts.
          oi' < length (acc[oi := Some (embedded_doc cfg (embs ! ei) x)])"
        by simp
      from Cons.IH [OF dist this tail rest k'] True head room Suc show ?thesis
        by (simp add: a)
    qed
  next
    case False
    with Cons.prems(4) a
    have rest: "ei + length (filter (\<lambda>p. nonblank (snd p)) ts) \<le> length embs"
      by simp
    from False Cons.prems(5,6) a obtain k' where Suc: "k = Suc k'"
      by (cases k) auto
    with Cons.prems(5,6) have k': "k' < length ts" "nonblank (snd (ts ! k'))"
      by simp_all
    from Cons.prems(2) have "\<forall>(oi', x') \<in> set ts.
        oi' < length (acc[oi := Some (unembedded_doc x)])"
      by simp
    from Cons.IH [OF dist this tail rest k'] False head Suc show ?thesis
      by (simp add: a)
  qed
qed

lemma target_position:
  assumes "i < length docs" "wants_embedding (docs ! i)"
  shows "embedding_targets docs =
           embedding_targets (take i docs) @ (i, docs ! i) #
           filter (\<lambda>(j, d). wants_embedding d) (enumerate (Suc i) (drop (Suc i) docs))"
proof -
  have "docs = take i docs @ docs ! i # drop (Suc i) docs"
    using assms(1) by (simp add: id_take_nth_drop)
  then have "enumerate 0 docs =
      enumerate 0 (take i docs) @ (i, docs ! i) # enumerate (Suc i) (drop (Suc i) docs)"
    using assms(1) by (metis add_0 enumerate_append_eq enumerate_simps(2) length_take
        min.absorb2 less_imp_le_nat)
  then show ?thesis
    using assms(2) by (simp add: embedding_targets_def)
qed

lemma valid_index_iff:
  "t \<in> set (map fst (valid_texts docs)) \<longleftrightarrow>
     t < length (embedding_targets docs) \<and> nonblank (snd (embedding_targets docs ! t))"
  by (auto simp: valid_texts_def in_set_enumerate_eq nonblank_def split_def image_iff)

lemma count_nonblank_targets:
  "length (filter (\<lambda>p. nonblank (snd p)) (embedding_targets docs)) =
     length (filter (\<lambda>d. wants_embedding d \<and> nonblank d) docs)"
proof -
  have "length (filter (\<lambda>p. nonblank (snd p)) (embedding_targets docs)) =
        length (filter nonblank (map snd (embedding_targets docs)))"
    by (simp add: filter_map comp_def)
  then show ?thesis
    by (simp add: targets_docs conj_commute)
qed

lemma length_valid_texts:
  "length (valid_texts docs) = length (filter (\<lambda>d. wants_embedding d \<and> nonblank d) docs)"
  using batch_texts [of docs] by (metis length_map)


lemma target_receives_vector:
  assumes i: "i < length docs" and wants: "wants_embedding (docs ! i)"
    and nb: "nonblank (docs ! i)"
    and call: "aembed w (map snd (valid_texts docs)) = (Inr embs, w')"
    and enough: "length (valid_texts docs) \<le> length embs"
  shows "fst (embed_chunked_documents cfg aembed w docs) ! i =
           embedded_doc cfg
             (embs ! length (filter (\<lambda>d. wants_embedding d \<and> nonblank d) (take i docs)))
             (docs ! i)"
proof -
  let ?ts = "embedding_targets docs"
  let ?k = "length (embedding_targets (take i docs))"
  let ?vi = "map fst (valid_texts docs)"
  let ?merged = "merge_targets cfg ?vi embs 0 0 ?ts (replicate (length docs) None)"
  let ?enh = "place_chunks (non_embedding_chunks cfg docs) ?merged"
  note pos = target_position [OF i wants]
  have k: "?k < length ?ts" and at: "?ts ! ?k = (i, docs ! i)"
    and before: "take ?k ?ts = embedding_targets (take i docs)"
    by (subst pos, simp)+
  from i have nonempty: "docs \<noteq> []"
    by auto
  from k have targets: "?ts \<noteq> []"
    by auto
  from i wants nb have "docs ! i \<in> set (filter (\<lambda>d. wants_embedding d \<and> nonblank d) docs)"
    by simp
  then have "filter (\<lambda>d. wants_embedding d \<and> nonblank d) docs \<noteq> []"
    by (metis empty_iff empty_set)
  then have valid: "valid_texts docs \<noteq> []"
    using length_valid_texts [of docs] by auto
  from nonempty targets valid call
  have out: "fst (embed_chunked_documents cfg aembed w docs) = map the ?enh"
    by (simp add: embed_chunked_documents_def create_batch_embeddings_def present_enhanced)
  have "\<forall>(oi, x) \<in> set ?ts. oi < length (replicate (length docs) (None :: vchunk option))"
    by (auto simp: targets_mem)
  moreover have "\<forall>k < length ?ts. (0 + k \<in> set ?vi) = nonblank (snd (?ts ! k))"
    using valid_index_iff [of _ docs] by simp
  moreover have "0 + length (filter (\<lambda>p. nonblank (snd p)) ?ts) \<le> length embs"
    using enough by (simp add: count_nonblank_targets length_valid_texts)
  moreover have "nonblank (snd (?ts ! ?k))"
    using at nb by simp
  ultimately have "?merged ! fst (?ts ! ?k) =
      Some (embedded_doc cfg
              (embs ! (0 + length (filter (\<lambda>p. nonblank (snd p)) (take ?k ?ts))))
              (snd (?ts ! ?k)))"
    using merge_targets_vectors [OF distinct_targets, of docs "replicate (length docs) None"
        0 ?vi 0 embs ?k cfg] k
    by blast
  then have merged: "?merged ! i =
      Some (embedded_doc cfg
              (embs ! length (filter (\<lambda>d. wants_embedding d \<and> nonblank d) (take i docs)))
              (docs ! i))"
    by (simp add: at before count_nonblank_targets)
  from wants have "i \<notin> fst ` set (non_embedding_chunks cfg docs)"
    by (auto simp: non_targets_mem)
  then have "?enh ! i = ?merged ! i"
    by (rule place_chunks_other)
  with merged out i show ?thesis
    by simp
qed

text \<open>
  C9, as the code has it.  \<open>embed_chunked_documents\<close> returns as many chunks as it
  receives, and the chunk at a position is the input chunk of that position with nothing
  but the embedding keys changed.  The texts of the batch call are, in order, the texts
  of the chunks that are embedding targets (the flag \<open>is_for_embedding\<close> true or
  absent) and not blank.  So a chunk whose flag is absent and whose text is not blank is
  an embedding target: its text is sent to the batch call, and when the call returns at
  least one vector for each text, the chunk receives the vector at the place of its text.
  (A blank target is not sent; it is returned with a null vector.)
\<close>

theorem embed_keeps_positions:
  "length (fst (embed_chunked_documents cfg aembed w docs)) = length docs \<and>
   (\<forall>i < length docs.
      strip_embedding (fst (embed_chunked_documents cfg aembed w docs) ! i) =
      strip_embedding (docs ! i)) \<and>
   map snd (valid_texts docs) =
     map (\<lambda>d. get_str (content d)) (filter (\<lambda>d. wants_embedding d \<and> nonblank d) docs) \<and>
   (\<forall>i < length docs.
      is_for_embedding (docs ! i) = None \<and> nonblank (docs ! i) \<longrightarrow>
      get_str (content (docs ! i)) \<in> set (map snd (valid_texts docs)) \<and>
      snd (embed_chunked_documents cfg aembed w docs) =
        snd (aembed w (map snd (valid_texts docs))) \<and>
      (\<forall>embs w'.
         aembed w (map snd (valid_texts docs)) = (Inr embs, w') \<and>
         length (valid_texts docs) \<le> length embs \<longrightarrow>
         fst (embed_chunked_documents cfg aembed w docs) ! i =
           embedded_doc cfg
             (embs ! length (filter (\<lambda>d. wants_embedding d \<and> nonblank d) (take i docs)))
             (docs ! i)))"
proof -
  have sent: "get_str (content (docs ! i)) \<in> set (map snd (valid_texts docs)) \<and>
      snd (embed_chunked_documents cfg aembed w docs) =
        snd (aembed w (map snd (valid_texts docs)))"
    if i: "i < length docs" and absent: "is_for_embedding (docs ! i) = None"
      and nb: "nonblank (docs ! i)" for i
  proof -
    from absent have wants: "wants_embedding (docs ! i)"
      by (simp add: wants_embedding_def)
    with i nb have mem: "docs ! i \<in> set (filter (\<lambda>d. wants_embedding d \<and> nonblank d) docs)"
      by simp
    then have listed: "get_str (content (docs ! i)) \<in> set (map snd (valid_texts docs))"
      unfolding batch_texts by (simp only: set_map) (rule imageI)
    then have valid: "valid_texts docs \<noteq> []"
      by auto
    from i wants have "(i, docs ! i) \<in> set (embedding_targets docs)"
      by (simp add: targets_mem)
    then have targets: "embedding_targets docs \<noteq> []"
      by auto
    from i have "docs \<noteq> []"
      by auto
    with targets valid
    have "snd (embed_chunked_documents cfg aembed w docs) =
        snd (aembed w (map snd (valid_texts docs)))"
      by (simp add: embed_chunked_documents_def create_batch_embeddings_def
            split: prod.splits sum.splits)
    with listed show ?thesis
      by simp
  qed
  have vector: "fst (embed_chunked_documents cfg aembed w docs) ! i =
           embedded_doc cfg
             (embs ! length (filter (\<lambda>d. wants_embedding d \<and> nonblank d) (take i docs)))
             (docs ! i)"
    if "i < length docs" "is_for_embedding (docs ! i) = None" "nonblank (docs ! i)"
      "aembed w (map snd (valid_texts docs)) = (Inr embs, w')"
      "length (valid_texts docs) \<le> length embs" for i embs w'
  proof -
    from that(2) have "wants_embedding (docs ! i)"
      by (simp add: wants_embedding_def)
    with that show ?thesis
      by (intro target_receives_vector [where aembed = aembed and w = w and w' = w'])
  qed
  from embed_positional [of cfg aembed w docs] batch_texts [of docs] sent vector
  show ?thesis
    by blast
qed

lemmas embed_eval_defs =
  embed_chunked_documents_def embedding_targets_def non_embedding_chunks_def valid_texts_def
  create_batch_embeddings_def counting_embedder_def wants_embedding_def plain_chunk_def
  get_str_def py_strip_def is_space_def u_def enumerate_eq_zip nonblank_def

theorem embed_keeps_positions_witness:
  "length (fst (embed_chunked_documents wit_config counting_embedder 0 wit_chunks)) = 3 \<and>
   is_for_embedding (wit_chunks ! 2) = None \<and> nonblank (wit_chunks ! 2) \<and>
   map snd (valid_texts wit_chunks) = [u ''abc'', u ''hello''] \<and>
   snd (embed_chunked_documents wit_config counting_embedder 0 wit_chunks) = 1 \<and>
   embedding (fst (embed_chunked_documents wit_config counting_embedder 0 wit_chunks) ! 2) =
     Some [5]"
proof -
  note T = embed_keeps_positions [where cfg = wit_config and aembed = counting_embedder
      and w = 0 and docs = wit_chunks]
  have len: "length wit_chunks = 3"
    by (simp add: wit_chunks_def)
  have absent: "is_for_embedding (wit_chunks ! 2) = None" and nb: "nonblank (wit_chunks ! 2)"
    by (simp_all add: wit_chunks_def embed_eval_defs)
  have texts: "map snd (valid_texts wit_chunks) = [u ''abc'', u ''hello'']"
    by (simp add: wit_chunks_def embed_eval_defs)
  have call: "counting_embedder 0 (map snd (valid_texts wit_chunks)) = (Inr [[3], [5]], 1)"
    by (simp add: texts) (simp add: counting_embedder_def u_def)
  have enough: "length (valid_texts wit_chunks) \<le> length [[3], [5 :: rat]]"
    using texts by (metis length_map le_refl length_Cons list.size(3))
  have before: "length (filter (\<lambda>d. wants_embedding d \<and> nonblank d) (take 2 wit_chunks)) = 1"
    by (simp add: wit_chunks_def embed_eval_defs)
  from T len have "length (fst (embed_chunked_documents wit_config counting_embedder 0
                                  wit_chunks)) = 3"
    by simp
  moreover have two: "2 < length wit_chunks"
    using len by simp
  note S = T [THEN conjunct2, THEN conjunct2, THEN conjunct2, rule_format, OF two,
      OF conjI [OF absent nb]]
  from S have "snd (embed_chunked_documents wit_config counting_embedder 0 wit_chunks) =
          snd (counting_embedder 0 (map snd (valid_texts wit_chunks)))"
    by blast
  moreover from S call enough
  have "fst (embed_chunked_documents wit_config counting_embedder 0 wit_chunks) ! 2 =
          embedded_doc wit_config
            ([[3], [5]] ! length (filter (\<lambda>d. wants_embedding d \<and> nonblank d)
                                     (take 2 wit_chunks)))
            (wit_chunks ! 2)"
    by blast
  ultimately show ?thesis
    using absent nb texts call before by (simp add: embedded_doc_def)
qed

text \<open>
  A single chunk without the flag and with a blank text is returned as it came, and the
  model is never called (its call counter stays 0).  Of two chunks without the flag, only
  the text of the non-blank one is sent, and the blank one is returned with a null
  vector.
\<close>

theorem embed_blank_counterexample:
  "is_for_embedding (plain_chunk (u ''  '')) = None \<and>
   embed_chunked_documents wit_config counting_embedder 0 [plain_chunk (u ''  '')] =
     ([plain_chunk (u ''  '')], 0) \<and>
   embedding (plain_chunk (u ''  '')) = None \<and>
   map snd (valid_texts [plain_chunk (u ''abc''), plain_chunk (u ''  '')]) = [u ''abc''] \<and>
   embedding (fst (embed_chunked_documents wit_config counting_embedder 0
                     [plain_chunk (u ''abc''), plain_chunk (u ''  '')]) ! 1) = None"
  by (simp add: embed_eval_defs present_def unembedded_doc_def embedded_doc_def)


section \<open>The chain: parsing the answers, locators, verdicts\<close>












































end
